theory Spec2Isabelle
  imports Complex_Main
begin

section \<open>Python values, types and exceptions\<close>

text \<open>
  A Python \<open>str\<close> is a sequence of Unicode code points, so it is modelled as a list of
  code points (natural numbers), not as a byte string: \<open>lower\<close>, \<open>strip\<close>, \<open>==\<close> and
  \<open>in\<close> all work on code points.  ASCII literals are written through \<open>ascii\<close>.
\<close>

type_synonym pystr = "nat list"

definition ascii :: "string \<Rightarrow> pystr" where
  "ascii s = map of_char s"

text \<open>
  The classes of the values that the calls of \<open>task1/solution.py\<close> pass around, with
  Python's subclass relation on them: every class is a subclass of itself and of
  \<open>object\<close>, and \<open>bool\<close> is a subclass of \<open>int\<close>.
\<close>

datatype pytype = TObject | TInt | TBool | TFloat | TStr | TNoneType

text \<open>A \<open>float\<close> is represented by the exact rational value of the double.\<close>

datatype pyval = VInt int | VBool bool | VFloat rat | VStr pystr | VNone

fun type_of :: "pyval \<Rightarrow> pytype" where
  "type_of (VInt i) = TInt"
| "type_of (VBool b) = TBool"
| "type_of (VFloat x) = TFloat"
| "type_of (VStr s) = TStr"
| "type_of VNone = TNoneType"

fun issubclass :: "pytype \<Rightarrow> pytype \<Rightarrow> bool" where
  "issubclass c TObject = True"
| "issubclass TBool TInt = True"
| "issubclass c d = (c = d)"

text \<open>
  The \<open>TypeError\<close> messages are kept structured: \<open>BadArgTypes name args kwargs\<close> is the
  f-string of \<open>strict.wrapper\<close>, whose variable parts are the function's \<open>__name__\<close>,
  the tuple \<open>args\<close> and the dictionary \<open>kwargs\<close>.  \<open>IsinstanceRefuses what\<close> is the
  message of \<open>isinstance\<close> itself when an entry of its tuple cannot be used for the
  check; it names that entry and nothing of the call.  The other messages are those of
  the interpreter when a call of \<open>sum_two\<close> cannot bind its parameters or add its
  operands.
\<close>

datatype type_error_msg =
    BadArgTypes pystr "pyval list" "(pystr \<times> pyval) list"
  | IsinstanceRefuses pystr
  | UnexpectedKeyword pystr
  | MultipleValues pystr
  | TooManyPositional nat
  | MissingArguments "pystr list"
  | UnsupportedOperand pytype pytype

datatype pyexn = TypeError type_error_msg | OtherException pystr

text \<open>
  An annotation is whatever the function's \<open>__annotations__\<close> holds for a parameter: one
  of the classes above, or any other object.  As an entry of the tuple given to
  \<open>isinstance\<close>, a class is tested with the subclass relation; any other object is
  represented by what \<open>isinstance\<close> does with it for a value: it answers (a union such
  as \<open>int | str\<close>, an abstract base class) or it raises (\<open>typing.Any\<close>, a
  parameterized generic such as \<open>list[int]\<close>, a string annotation).
\<close>

datatype annotation = Class pytype | Other "pyval \<Rightarrow> pyexn + bool"

fun is_class :: "annotation \<Rightarrow> bool" where
  "is_class (Class c) = True"
| "is_class (Other check) = False"

fun instancecheck :: "annotation \<Rightarrow> pyval \<Rightarrow> pyexn + bool" where
  "instancecheck (Class c) v = Inr (issubclass (type_of v) c)"
| "instancecheck (Other check) v = check v"

text \<open>
  \<open>isinstance(v, types)\<close> with a tuple: the entries are tried from the left; the first
  that fits makes the answer true, the first that raises ends the call with its error,
  and the answer is false when no entry is left.
\<close>

fun isinstance :: "pyval \<Rightarrow> annotation list \<Rightarrow> pyexn + bool" where
  "isinstance v [] = Inr False"
| "isinstance v (t # types) =
     (case instancecheck t v of
        Inl e \<Rightarrow> Inl e
      | Inr fits \<Rightarrow> if fits then Inr True else isinstance v types)"

text \<open>
  \<open>typing.Any\<close> and \<open>list[int]\<close> as annotations: \<open>isinstance\<close> raises its own
  \<open>TypeError\<close> for every value.
\<close>

definition typing_Any :: annotation where
  "typing_Any = Other (\<lambda>v. Inl (TypeError (IsinstanceRefuses (ascii ''typing.Any''))))"

definition list_of_int :: annotation where
  "list_of_int = Other (\<lambda>v. Inl (TypeError (IsinstanceRefuses (ascii ''list[int]''))))"

section \<open>Task 1: the decorator \<open>strict\<close>\<close>

text \<open>
  A function object: its \<open>__name__\<close>, the items of its \<open>__annotations__\<close> in order, and
  what a call does.  A call takes the positional arguments and the keyword arguments
  (a dictionary, in call order) and the state of the world \<open>'w\<close> that the function may
  change; it returns the result or the exception raised, with the new state.  A function
  that is not invoked leaves the state as it was.
\<close>

record ('w, 'r) pyfunc =
  name :: pystr
  annotations :: "(pystr \<times> annotation) list"
  body :: "pyval list \<Rightarrow> (pystr \<times> pyval) list \<Rightarrow> 'w \<Rightarrow> (pyexn + 'r) \<times> 'w"

text \<open>
  \<^verbatim>\<open>param_types = tuple([value for key, value in func.__annotations__.items()
                        if key != "return"])\<close>
\<close>

definition param_types :: "('w, 'r) pyfunc \<Rightarrow> annotation list" where
  "param_types func =
     map snd (filter (\<lambda>(key, value). key \<noteq> ascii ''return'') (annotations func))"

text \<open>
  \<^verbatim>\<open>args_ok = [isinstance(a, param_types) for a in args]
kwargs_ok = [isinstance(v, param_types) for v in kwargs.values()]
if not all(args_ok) or not all(kwargs_ok):
    raise TypeError(...)
return func(*args, **kwargs)\<close>
  The two list comprehensions run \<open>isinstance\<close> on the values in order
  (\<open>isinstance_each\<close>); an \<open>isinstance\<close> that raises ends the call there, before the
  test of the two lists and before the function.
\<close>

fun isinstance_each :: "annotation list \<Rightarrow> pyval list \<Rightarrow> pyexn + bool list" where
  "isinstance_each types [] = Inr []"
| "isinstance_each types (v # vs) =
     (case isinstance v types of
        Inl e \<Rightarrow> Inl e
      | Inr ok \<Rightarrow>
          (case isinstance_each types vs of
             Inl e \<Rightarrow> Inl e
           | Inr oks \<Rightarrow> Inr (ok # oks)))"

definition wrapper ::
  "('w, 'r) pyfunc \<Rightarrow> pyval list \<Rightarrow> (pystr \<times> pyval) list \<Rightarrow> 'w \<Rightarrow> (pyexn + 'r) \<times> 'w"
where
  "wrapper func args kwargs w =
     (case isinstance_each (param_types func) args of
        Inl e \<Rightarrow> (Inl e, w)
      | Inr args_ok \<Rightarrow>
          (case isinstance_each (param_types func) (map snd kwargs) of
             Inl e \<Rightarrow> (Inl e, w)
           | Inr kwargs_ok \<Rightarrow>
               if \<not> list_all id args_ok \<or> \<not> list_all id kwargs_ok
               then (Inl (TypeError (BadArgTypes (name func) args kwargs)), w)
               else body func args kwargs w))"

text \<open>
  \<open>strict(func)\<close> returns \<open>wrapper\<close>; \<open>functools.wraps\<close> gives it the name and the
  annotations of \<open>func\<close>.
\<close>

definition strict :: "('w, 'r) pyfunc \<Rightarrow> ('w, 'r) pyfunc" where
  "strict func = func\<lparr>body := wrapper func\<rparr>"

subsection \<open>The decorated example \<open>sum_two\<close>\<close>

text \<open>
  Binding the arguments of a call to the parameters of \<open>def sum_two(a, b)\<close>, in the
  interpreter's order: positional arguments fill the slots from the left, each keyword
  is then matched against the parameter names, then the number of positional arguments
  is checked, then the slots left empty.
\<close>

fun bind_keywords ::
  "pyval option \<times> pyval option \<Rightarrow> (pystr \<times> pyval) list \<Rightarrow> pyexn + (pyval option \<times> pyval option)"
where
  "bind_keywords slots [] = Inr slots"
| "bind_keywords (sa, sb) ((k, v) # kws) =
     (if k = ascii ''a'' then
        (case sa of Some x \<Rightarrow> Inl (TypeError (MultipleValues k))
                  | None \<Rightarrow> bind_keywords (Some v, sb) kws)
      else if k = ascii ''b'' then
        (case sb of Some x \<Rightarrow> Inl (TypeError (MultipleValues k))
                  | None \<Rightarrow> bind_keywords (sa, Some v) kws)
      else Inl (TypeError (UnexpectedKeyword k)))"

definition positional_slots :: "pyval list \<Rightarrow> pyval option \<times> pyval option" where
  "positional_slots args =
     (case args of [] \<Rightarrow> (None, None)
                 | [x] \<Rightarrow> (Some x, None)
                 | x # y # rest \<Rightarrow> (Some x, Some y))"

definition bind_a_b :: "pyval list \<Rightarrow> (pystr \<times> pyval) list \<Rightarrow> pyexn + (pyval \<times> pyval)" where
  "bind_a_b args kwargs =
     (case bind_keywords (positional_slots args) kwargs of
        Inl e \<Rightarrow> Inl e
      | Inr (sa, sb) \<Rightarrow>
          if length args > 2 then Inl (TypeError (TooManyPositional (length args)))
          else (case (sa, sb) of
                  (Some x, Some y) \<Rightarrow> Inr (x, y)
                | (Some x, None) \<Rightarrow> Inl (TypeError (MissingArguments [ascii ''b'']))
                | (None, Some y) \<Rightarrow> Inl (TypeError (MissingArguments [ascii ''a'']))
                | (None, None) \<Rightarrow>
                    Inl (TypeError (MissingArguments [ascii ''a'', ascii ''b'']))))"

text \<open>
  The operator \<open>a + b\<close> on these values.  Integers add (a \<open>bool\<close> counts as 0 or 1),
  strings concatenate, and unrelated operands raise.  Floating-point addition rounds;
  it is not computed here but taken as the parameter \<open>fadd\<close>, which is handed every
  addition with a \<open>float\<close> operand on either side and a number on the other.
\<close>

fun int_of_number :: "pyval \<Rightarrow> int option" where
  "int_of_number (VInt i) = Some i"
| "int_of_number (VBool b) = Some (if b then 1 else 0)"
| "int_of_number v = None"

definition is_number :: "pyval \<Rightarrow> bool" where
  "is_number v = (type_of v = TInt \<or> type_of v = TBool \<or> type_of v = TFloat)"

definition py_add ::
  "(pyval \<Rightarrow> pyval \<Rightarrow> pyexn + pyval) \<Rightarrow> pyval \<Rightarrow> pyval \<Rightarrow> pyexn + pyval"
where
  "py_add fadd x y =
     (case (int_of_number x, int_of_number y) of
        (Some i, Some j) \<Rightarrow> Inr (VInt (i + j))
      | _ \<Rightarrow>
        (case (x, y) of
           (VStr s, VStr t) \<Rightarrow> Inr (VStr (s @ t))
         | _ \<Rightarrow>
           if is_number x \<and> is_number y then fadd x y
           else Inl (TypeError (UnsupportedOperand (type_of x) (type_of y)))))"

text \<open>
  \<^verbatim>\<open>def sum_two(a: int, b: int) -> int:
    return a + b\<close>
  before decoration, and \<open>sum_two\<close> as the module binds it, after \<open>@strict\<close>.
\<close>

definition sum_two_undecorated ::
  "(pyval \<Rightarrow> pyval \<Rightarrow> pyexn + pyval) \<Rightarrow> ('w, pyval) pyfunc"
where
  "sum_two_undecorated fadd =
     \<lparr> name = ascii ''sum_two'',
       annotations = [(ascii ''a'', Class TInt), (ascii ''b'', Class TInt),
                      (ascii ''return'', Class TInt)],
       body = (\<lambda>args kwargs w.
                 (case bind_a_b args kwargs of
                    Inl e \<Rightarrow> (Inl e, w)
                  | Inr (a, b) \<Rightarrow> (py_add fadd a b, w))) \<rparr>"

definition sum_two :: "(pyval \<Rightarrow> pyval \<Rightarrow> pyexn + pyval) \<Rightarrow> ('w, pyval) pyfunc" where
  "sum_two fadd = strict (sum_two_undecorated fadd)"

text \<open>
  Exact addition of the operands' values: what floating-point addition gives whenever
  the exact sum is representable.  It instantiates \<open>fadd\<close> in the closed examples below,
  none of which adds floats.
\<close>

definition fadd_exact :: "pyval \<Rightarrow> pyval \<Rightarrow> pyexn + pyval" where
  "fadd_exact x y =
     (let value_of = (\<lambda>v. case v of VFloat r \<Rightarrow> r
                               | VInt i \<Rightarrow> of_int i
                               | VBool b \<Rightarrow> (if b then 1 else 0)
                               | _ \<Rightarrow> 0)
      in Inr (VFloat (value_of x + value_of y)))"

text \<open>
  A function with an annotation that is not a class:
  \<^verbatim>\<open>def f(a: Any, b: int):
    return a + b\<close>
\<close>

definition any_int_function ::
  "(pyval \<Rightarrow> pyval \<Rightarrow> pyexn + pyval) \<Rightarrow> ('w, pyval) pyfunc"
where
  "any_int_function fadd =
     (sum_two_undecorated fadd)
       \<lparr>name := ascii ''f'',
        annotations := [(ascii ''a'', typing_Any), (ascii ''b'', Class TInt)]\<rparr>"

section \<open>Task 2: the scraper \<open>ParseWikiAnimals\<close>\<close>

subsection \<open>String operations\<close>

text \<open>The code points for which \<open>str.isspace\<close> holds: what \<open>str.strip()\<close> removes.\<close>

definition is_space :: "nat \<Rightarrow> bool" where
  "is_space c =
     (c \<in> set [0x9, 0xA, 0xB, 0xC, 0xD, 0x1C, 0x1D, 0x1E, 0x1F, 0x20, 0x85, 0xA0, 0x1680,
                0x2000, 0x2001, 0x2002, 0x2003, 0x2004, 0x2005, 0x2006, 0x2007, 0x2008,
                0x2009, 0x200A, 0x2028, 0x2029, 0x202F, 0x205F, 0x3000])"

definition strip :: "pystr \<Rightarrow> pystr" where
  "strip s = rev (dropWhile is_space (rev (dropWhile is_space s)))"

fun startswith :: "pystr \<Rightarrow> pystr \<Rightarrow> bool" where
  "startswith s [] = True"
| "startswith [] (c # p) = False"
| "startswith (d # s) (c # p) = (d = c \<and> startswith s p)"

text \<open>
  \<open>x in s\<close> on two strings: \<open>x\<close> occurs in \<open>s\<close> as a contiguous substring.  The empty
  string occurs in every string.
\<close>

fun is_substring :: "pystr \<Rightarrow> pystr \<Rightarrow> bool" where
  "is_substring x [] = (x = [])"
| "is_substring x (c # s) = (startswith (c # s) x \<or> is_substring x s)"

text \<open>
  \<open>str.lower\<close> depends on the case tables of Unicode and is a parameter, \<open>lower\<close>, of
  the functions below.  \<open>lower_basic\<close> is \<open>str.lower\<close> on strings made of ASCII
  characters and of the Cyrillic letters U+0400 to U+044F and U+0451; it instantiates
  the parameter in the closed examples, whose labels are such strings.
\<close>

definition lower_basic :: "pystr \<Rightarrow> pystr" where
  "lower_basic s =
     map (\<lambda>c. if 0x41 \<le> c \<and> c \<le> 0x5A then c + 0x20
              else if 0x410 \<le> c \<and> c \<le> 0x42F then c + 0x20
              else if 0x400 \<le> c \<and> c \<le> 0x40F then c + 0x50
              else c) s"

text \<open>
  \<open>urllib.parse.urljoin\<close> is a parameter, \<open>urljoin\<close>, of \<open>next_page_url\<close>.
  \<open>urljoin_absolute_path\<close> is what it computes for a base \<open>scheme://authority/path\<close>
  and a reference that is an absolute path (one leading slash, no dot segments): the
  scheme and the authority of the base, followed by the reference.  It instantiates the
  parameter in the closed examples, at the reference of the test.
\<close>

fun upto_slash :: "nat \<Rightarrow> pystr \<Rightarrow> pystr" where
  "upto_slash n [] = []"
| "upto_slash n (c # s) =
     (if c = 0x2F then (case n of 0 \<Rightarrow> [] | Suc m \<Rightarrow> c # upto_slash m s)
      else c # upto_slash n s)"

definition urljoin_absolute_path :: "pystr \<Rightarrow> pystr \<Rightarrow> pystr" where
  "urljoin_absolute_path base url = upto_slash 2 base @ url"

subsection \<open>Module constants\<close>

text \<open>
  \<^verbatim>\<open>BASE_URL = "https://ru.wikipedia.org/wiki/..."\<close>, where the page title is the
  Cyrillic name of the category: three words, joined by a colon and by underscores.
\<close>

definition category_title :: pystr where
  "category_title =
     [0x41A, 0x430, 0x442, 0x435, 0x433, 0x43E, 0x440, 0x438, 0x44F, 0x3A,
      0x416, 0x438, 0x432, 0x43E, 0x442, 0x43D, 0x44B, 0x435, 0x5F,
      0x43F, 0x43E, 0x5F,
      0x430, 0x43B, 0x444, 0x430, 0x432, 0x438, 0x442, 0x443]"

definition BASE_URL :: pystr where
  "BASE_URL = ascii ''https://ru.wikipedia.org/wiki/'' @ category_title"

definition TIMEOUT :: int where
  "TIMEOUT = 30"

text \<open>The 33 lowercase letters, U+0451 after U+0435.\<close>

definition russian_letters :: pystr where
  "russian_letters =
     [0x430, 0x431, 0x432, 0x433, 0x434, 0x435, 0x451, 0x436, 0x437, 0x438, 0x439,
      0x43A, 0x43B, 0x43C, 0x43D, 0x43E, 0x43F, 0x440, 0x441, 0x442, 0x443, 0x444,
      0x445, 0x446, 0x447, 0x448, 0x449, 0x44A, 0x44B, 0x44C, 0x44D, 0x44E, 0x44F]"

text \<open>The label of the link to the next page, two words of nine and eight letters.\<close>

definition next_page_label :: pystr where
  "next_page_label =
     [0x421, 0x43B, 0x435, 0x434, 0x443, 0x44E, 0x449, 0x430, 0x44F, 0x20,
      0x441, 0x442, 0x440, 0x430, 0x43D, 0x438, 0x446, 0x430]"

subsection \<open>The document tree\<close>

text \<open>
  What \<open>BeautifulSoup(markup, "lxml")\<close> hands to the scraper: a tree of tags, strings
  and comments.  A tag has a name, its attributes as the markup writes them, and its
  children.  The document itself is the root tag; every search below looks at the
  descendants of the node it is called on, in document order.
\<close>

datatype node =
    Tag pystr "(pystr \<times> pystr) list" "node list"
  | NavigableString pystr
  | Comment pystr

fun descendants :: "node \<Rightarrow> node list" where
  "descendants (Tag n attrs cs) = concat (map (\<lambda>c. c # descendants c) cs)"
| "descendants (NavigableString s) = []"
| "descendants (Comment s) = []"

text \<open>\<open>tag.find(...)\<close> and \<open>tag.find_all(...)\<close>, with the search criteria as a predicate.\<close>

definition soup_find :: "(node \<Rightarrow> bool) \<Rightarrow> node \<Rightarrow> node option" where
  "soup_find p n = List.find p (descendants n)"

definition soup_find_all :: "(node \<Rightarrow> bool) \<Rightarrow> node \<Rightarrow> node list" where
  "soup_find_all p n = filter p (descendants n)"

fun is_tag_named :: "pystr \<Rightarrow> node \<Rightarrow> bool" where
  "is_tag_named nm (Tag n attrs cs) = (n = nm)"
| "is_tag_named nm x = False"

fun get_attr :: "node \<Rightarrow> pystr \<Rightarrow> pystr option" where
  "get_attr (Tag n attrs cs) k = map_of attrs k"
| "get_attr x k = None"

text \<open>
  The library presents the \<open>class\<close> attribute as the list of its whitespace-separated
  values.  A search for a class matches a tag when one of the values is the class
  searched, or when the values joined by single spaces are.
\<close>

fun tokens :: "pystr \<Rightarrow> pystr \<Rightarrow> pystr list" where
  "tokens cur [] = (if cur = [] then [] else [cur])"
| "tokens cur (c # s) =
     (if is_space c then (if cur = [] then tokens [] s else cur # tokens [] s)
      else tokens (cur @ [c]) s)"

fun join_spaces :: "pystr list \<Rightarrow> pystr" where
  "join_spaces [] = []"
| "join_spaces [v] = v"
| "join_spaces (v # vs) = v @ [0x20] @ join_spaces vs"

definition has_class :: "pystr \<Rightarrow> node \<Rightarrow> bool" where
  "has_class cls n =
     (case get_attr n (ascii ''class'') of
        None \<Rightarrow> False
      | Some raw \<Rightarrow> cls \<in> set (tokens [] raw) \<or> join_spaces (tokens [] raw) = cls)"

text \<open>\<open>tag.text\<close>: the strings below the tag, in document order; comments are left out.\<close>

fun own_text :: "node \<Rightarrow> pystr" where
  "own_text (NavigableString s) = s"
| "own_text x = []"

definition text_of :: "node \<Rightarrow> pystr" where
  "text_of n = concat (map own_text (descendants n))"

text \<open>
  \<open>tag.string\<close>: defined when the tag has exactly one child; it is that child when the
  child is a string (a comment is one), and the child's own \<open>.string\<close> when the child
  is a tag.
\<close>

fun tag_string :: "node \<Rightarrow> pystr option" where
  "tag_string (Tag n attrs [NavigableString s]) = Some s"
| "tag_string (Tag n attrs [Comment s]) = Some s"
| "tag_string (Tag n attrs [Tag m battrs cs]) = tag_string (Tag m battrs cs)"
| "tag_string x = None"

subsection \<open>The scraper object\<close>

text \<open>
  Calls of \<open>self.logger\<close> are recorded, in order, in the field \<open>logged\<close>.  The HTTP
  client is not part of the model: \<open>_parse_page\<close> and \<open>_next_page_url\<close> work on a
  document that has been fetched and parsed already.
\<close>

datatype log_level = DEBUG | INFO | WARNING

datatype log_message =
    MwPagesNotFound
  | ContentLtrNotFound
  | NextPageIs pystr
  | NextPageNotFound

record ParseWikiAnimals =
  base_url :: pystr
  timeout :: int
  pages_processed :: int
  letters_result :: "(pystr \<times> int) list"
  only_russian :: bool
  self_russian_letters :: pystr
  logged :: "(log_level \<times> log_message) list"

text \<open>\<open>__init__(self, parse_only_russian_letters)\<close>\<close>

definition init :: "bool \<Rightarrow> ParseWikiAnimals" where
  "init parse_only_russian_letters =
     \<lparr> base_url = BASE_URL,
       timeout = TIMEOUT,
       pages_processed = 0,
       letters_result = [],
       only_russian = parse_only_russian_letters,
       self_russian_letters = russian_letters,
       logged = [] \<rparr>"

text \<open>
  \<open>letters_result\<close> is a \<open>dict\<close>: its items in insertion order, one per key.
  \<open>d.get(k, default)\<close> and \<open>d[k] = v\<close> (a key already there keeps its place, a new one
  goes to the end).
\<close>

definition dict_get :: "(pystr \<times> int) list \<Rightarrow> pystr \<Rightarrow> int \<Rightarrow> int" where
  "dict_get d k dflt = (case map_of d k of None \<Rightarrow> dflt | Some v \<Rightarrow> v)"

fun dict_set :: "(pystr \<times> int) list \<Rightarrow> pystr \<Rightarrow> int \<Rightarrow> (pystr \<times> int) list" where
  "dict_set [] k v = [(k, v)]"
| "dict_set ((k', v') # d) k v = (if k' = k then (k, v) # d else (k', v') # dict_set d k v)"

text \<open>The keys of the dictionary, in insertion order.\<close>

definition dict_keys :: "(pystr \<times> int) list \<Rightarrow> pystr list" where
  "dict_keys d = map fst d"

text \<open>
  The body of \<^verbatim>\<open>for group in category_groups:\<close> in \<open>_parse_page\<close>.
  \<^verbatim>\<open>letter_tag = group.find("h3")
ul_tag = group.find("ul")
if not (letter_tag and ul_tag):
    continue
letter = letter_tag.text.strip()
if self._only_russian:
    if letter.lower() not in self._russian_letters:
        continue
count = len(ul_tag.find_all("li"))
self.letters_result[letter] = self.letters_result.get(letter, 0) + count\<close>
\<close>

definition parse_group ::
  "(pystr \<Rightarrow> pystr) \<Rightarrow> ParseWikiAnimals \<Rightarrow> node \<Rightarrow> ParseWikiAnimals"
where
  "parse_group lower self grp =
     (case soup_find (is_tag_named (ascii ''h3'')) grp of
        None \<Rightarrow> self
      | Some letter_tag \<Rightarrow>
        (case soup_find (is_tag_named (ascii ''ul'')) grp of
           None \<Rightarrow> self
         | Some ul_tag \<Rightarrow>
           (let letter = strip (text_of letter_tag) in
            if only_russian self \<and> \<not> is_substring (lower letter) (self_russian_letters self)
            then self
            else
              (let count = int (length (soup_find_all (is_tag_named (ascii ''li'')) ul_tag))
               in self\<lparr>letters_result :=
                         dict_set (letters_result self) letter
                           (dict_get (letters_result self) letter 0 + count)\<rparr>))))"

text \<open>The three searches of \<open>_parse_page\<close>.\<close>

definition is_mw_pages :: "node \<Rightarrow> bool" where
  "is_mw_pages n =
     (is_tag_named (ascii ''div'') n \<and> get_attr n (ascii ''id'') = Some (ascii ''mw-pages''))"

definition is_content_ltr :: "node \<Rightarrow> bool" where
  "is_content_ltr n = (is_tag_named (ascii ''div'') n \<and> has_class (ascii ''mw-content-ltr'') n)"

definition is_category_group :: "node \<Rightarrow> bool" where
  "is_category_group n =
     (is_tag_named (ascii ''div'') n \<and> has_class (ascii ''mw-category-group'') n)"

text \<open>\<open>_parse_page(self, soup)\<close>: the scraper after the call.\<close>

definition parse_page ::
  "(pystr \<Rightarrow> pystr) \<Rightarrow> ParseWikiAnimals \<Rightarrow> node \<Rightarrow> ParseWikiAnimals"
where
  "parse_page lower self soup =
     (case soup_find is_mw_pages soup of
        None \<Rightarrow> self\<lparr>logged := logged self @ [(WARNING, MwPagesNotFound)]\<rparr>
      | Some category_div \<Rightarrow>
        (case soup_find is_content_ltr category_div of
           None \<Rightarrow> self\<lparr>logged := logged self @ [(WARNING, ContentLtrNotFound)]\<rparr>
         | Some content_div \<Rightarrow>
             foldl (parse_group lower) self (soup_find_all is_category_group content_div)))"

text \<open>
  \<open>_next_page_url(self, soup)\<close>: the value returned and the scraper after the call.
  \<^verbatim>\<open>link = soup.find('a', string=<label>)
if link and link.has_attr("href"):
    next_url = urljoin(self.base_url, link["href"])
    self.logger.debug(..., next_url)
    return next_url
self.logger.debug(...)
return None\<close>
\<close>

definition is_next_link :: "node \<Rightarrow> bool" where
  "is_next_link n = (is_tag_named (ascii ''a'') n \<and> tag_string n = Some next_page_label)"

definition next_page_url ::
  "(pystr \<Rightarrow> pystr \<Rightarrow> pystr) \<Rightarrow> ParseWikiAnimals \<Rightarrow> node \<Rightarrow> pystr option \<times> ParseWikiAnimals"
where
  "next_page_url urljoin self soup =
     (let not_found = (None, self\<lparr>logged := logged self @ [(DEBUG, NextPageNotFound)]\<rparr>) in
      case soup_find is_next_link soup of
        None \<Rightarrow> not_found
      | Some link \<Rightarrow>
        (case get_attr link (ascii ''href'') of
           None \<Rightarrow> not_found
         | Some href \<Rightarrow>
           (let next_url = urljoin (base_url self) href
            in (Some next_url, self\<lparr>logged := logged self @ [(DEBUG, NextPageIs next_url)]\<rparr>))))"

subsection \<open>The documents of \<open>TestParseWikiAnimals\<close> and further examples\<close>

text \<open>
  The documents that the parser builds from the markup of the tests: the content sits
  in \<open>html\<close> and \<open>body\<close>, and the whitespace between tags is kept as strings
  (\<open>indent n\<close> is a line break followed by \<open>n\<close> spaces).
\<close>

definition indent :: "nat \<Rightarrow> node" where
  "indent n = NavigableString (0xA # replicate n 0x20)"

definition document :: "node list \<Rightarrow> node" where
  "document body_nodes =
     Tag (ascii ''[document]'') [] [Tag (ascii ''html'') [] [Tag (ascii ''body'') [] body_nodes]]"

text \<open>\<^verbatim>\<open><li><a href="/wiki/Title">Title</a></li>\<close>; the link writes a space as an underscore.\<close>

definition entry :: "pystr \<Rightarrow> node" where
  "entry title =
     Tag (ascii ''li'') []
       [Tag (ascii ''a'')
          [(ascii ''href'', ascii ''/wiki/'' @ map (\<lambda>c. if c = 0x20 then 0x5F else c) title)]
          [NavigableString title]]"

definition letter_A :: pystr where "letter_A = [0x410]"
definition letter_B :: pystr where "letter_B = [0x411]"
definition letter_C :: pystr where "letter_C = ascii ''C''"

definition title_akula :: pystr where
  "title_akula = [0x410, 0x43A, 0x443, 0x43B, 0x430]"

definition title_amur_tiger :: pystr where
  "title_amur_tiger =
     [0x410, 0x43C, 0x443, 0x440, 0x441, 0x43A, 0x438, 0x439, 0x20, 0x442, 0x438, 0x433, 0x440]"

definition title_bobr :: pystr where
  "title_bobr = [0x411, 0x43E, 0x431, 0x440]"

definition mw_pages :: "node list \<Rightarrow> node" where
  "mw_pages content =
     Tag (ascii ''div'') [(ascii ''id'', ascii ''mw-pages'')]
       [indent 6,
        Tag (ascii ''div'') [(ascii ''class'', ascii ''mw-content-ltr'')] content,
        indent 4]"

definition HTML_PARSE_1 :: node where
  "HTML_PARSE_1 =
     document
       [mw_pages
          [indent 8,
           Tag (ascii ''div'') [(ascii ''class'', ascii ''mw-category-group'')]
             [indent 10,
              Tag (ascii ''h3'') [] [NavigableString letter_A],
              indent 10,
              Tag (ascii ''ul'') []
                [indent 12, entry title_akula, indent 12, entry title_amur_tiger, indent 10],
              indent 8],
           indent 8,
           Tag (ascii ''div'') [(ascii ''class'', ascii ''mw-category-group'')]
             [indent 10,
              Tag (ascii ''h3'') [] [NavigableString letter_B],
              indent 10,
              Tag (ascii ''ul'') [] [entry title_bobr],
              indent 8],
           indent 6],
        indent 4]"

definition HTML_PARSE_ONLY_RU :: node where
  "HTML_PARSE_ONLY_RU =
     document
       [mw_pages
          [indent 8,
           Tag (ascii ''div'') [(ascii ''class'', ascii ''mw-category-group'')]
             [indent 10,
              Tag (ascii ''h3'') [] [NavigableString letter_B],
              indent 10,
              Tag (ascii ''ul'') [] [entry title_bobr],
              indent 8],
           indent 8,
           Tag (ascii ''div'') [(ascii ''class'', ascii ''mw-category-group'')]
             [indent 10,
              Tag (ascii ''h3'') [] [NavigableString letter_C],
              indent 10,
              Tag (ascii ''ul'') [] [entry (ascii ''Camel'')],
              indent 8],
           indent 6],
        indent 4]"

definition next_page_href :: pystr where
  "next_page_href = ascii ''/wiki/'' @ category_title @ ascii ''?pagefrom=Page2''"

definition HTML_NEXT_LINK :: node where
  "HTML_NEXT_LINK =
     document
       [Tag (ascii ''a'') [(ascii ''href'', next_page_href)] [NavigableString next_page_label],
        indent 4]"

definition HTML_NO_NEXT :: node where
  "HTML_NO_NEXT =
     document
       [Tag (ascii ''p'') []
          [NavigableString
             [0x41A, 0x43E, 0x43D, 0x435, 0x446, 0x20, 0x441, 0x43F, 0x438, 0x441, 0x43A, 0x430]]]"

text \<open>
  Further pages, built without the whitespace between tags.  \<open>category_group\<close> is a
  complete group: a heading with the given text and a list with the given entries.
\<close>

definition category_group :: "pystr \<Rightarrow> pystr list \<Rightarrow> node" where
  "category_group heading titles =
     Tag (ascii ''div'') [(ascii ''class'', ascii ''mw-category-group'')]
       [Tag (ascii ''h3'') [] [NavigableString heading],
        Tag (ascii ''ul'') [] (map entry titles)]"

definition category_page :: "node list \<Rightarrow> node" where
  "category_page groups =
     document
       [Tag (ascii ''div'') [(ascii ''id'', ascii ''mw-pages'')]
          [Tag (ascii ''div'') [(ascii ''class'', ascii ''mw-content-ltr'')] groups]]"

text \<open>A page that yields \<open>A: 2\<close> and a page that yields \<open>A: 1, B: 1\<close> (Cyrillic letters).\<close>

definition page_A :: node where
  "page_A = category_page [category_group letter_A [title_akula, title_amur_tiger]]"

definition page_B :: node where
  "page_B =
     category_page [category_group letter_A [title_akula], category_group letter_B [title_bobr]]"

text \<open>
  A group with a heading and no list, a group with a list and no heading, and a page
  that holds both, followed by a complete group.
\<close>

definition group_no_list :: node where
  "group_no_list =
     Tag (ascii ''div'') [(ascii ''class'', ascii ''mw-category-group'')]
       [Tag (ascii ''h3'') [] [NavigableString letter_A]]"

definition group_no_heading :: node where
  "group_no_heading =
     Tag (ascii ''div'') [(ascii ''class'', ascii ''mw-category-group'')]
       [Tag (ascii ''ul'') [] [entry title_akula]]"

definition page_incomplete_groups :: node where
  "page_incomplete_groups =
     category_page [group_no_list, group_no_heading, category_group letter_B [title_bobr]]"

text \<open>A page with the container \<open>mw-pages\<close> and no block \<open>mw-content-ltr\<close> in it.\<close>

definition page_no_content :: node where
  "page_no_content =
     document [Tag (ascii ''div'') [(ascii ''id'', ascii ''mw-pages'')] [indent 4]]"

text \<open>
  A page with four groups: one whose heading holds a no-break space only, one whose
  heading is the two letters \<open>letter_A\<close>, \<open>letter_B\<close>, one headed \<open>C\<close> and one headed
  \<open>letter_B\<close>.
\<close>

definition page_odd_headings :: node where
  "page_odd_headings =
     category_page
       [category_group [0xA0] [title_akula],
        category_group (letter_A @ letter_B) [title_amur_tiger],
        category_group letter_C [ascii ''Camel''],
        category_group letter_B [title_bobr]]"

text \<open>
  A document with two links labelled as the link to the next page: the first has no
  \<open>href\<close>, the second has one.
\<close>

definition two_next_links :: node where
  "two_next_links =
     document
       [Tag (ascii ''a'') [] [NavigableString next_page_label],
        Tag (ascii ''a'') [(ascii ''href'', next_page_href)] [NavigableString next_page_label]]"

section \<open>Properties of \<open>strict\<close>\<close>

lemma param_types_sum_two [simp]:
  "param_types (sum_two_undecorated fadd) = [Class TInt, Class TInt]"
  by (simp add: param_types_def sum_two_undecorated_def ascii_def)

lemma param_types_any_int [simp]:
  "param_types (any_int_function fadd) = [typing_Any, Class TInt]"
  by (simp add: param_types_def any_int_function_def ascii_def)

lemma issubclass_refl [simp]: "issubclass c c"
  by (cases c) simp_all

text \<open>When every entry is a class, \<open>isinstance\<close> answers, by the subclass relation.\<close>

lemma isinstance_classes:
  "\<forall>t\<in>set types. is_class t \<Longrightarrow>
   isinstance v types = Inr (\<exists>c. Class c \<in> set types \<and> issubclass (type_of v) c)"
proof (induction types)
  case Nil
  show ?case by simp
next
  case (Cons t types)
  then obtain c where t: "t = Class c"
    by (cases t) simp_all
  from Cons have "isinstance v types
                    = Inr (\<exists>c. Class c \<in> set types \<and> issubclass (type_of v) c)"
    by simp
  then show ?case
    by (auto simp add: t)
qed

text \<open>
  When the runtime type of the value is an entry, \<open>isinstance\<close> cannot answer false: it
  answers true, unless an entry before raises.
\<close>

lemma isinstance_member:
  "Class (type_of v) \<in> set types \<Longrightarrow> isinstance v types \<noteq> Inr False"
proof (induction types)
  case Nil
  then show ?case by simp
next
  case (Cons t types)
  show ?case
  proof (cases "t = Class (type_of v)")
    case True
    then show ?thesis by simp
  next
    case False
    with Cons have "isinstance v types \<noteq> Inr False"
      by simp
    then show ?thesis
      by (simp split: sum.split)
  qed
qed

lemma isinstance_each_answers:
  "\<forall>v\<in>set vs. \<exists>b. isinstance v types = Inr b \<Longrightarrow>
   isinstance_each types vs = Inr (map (\<lambda>v. isinstance v types = Inr True) vs)"
proof (induction vs)
  case Nil
  show ?case by simp
next
  case (Cons v vs)
  then obtain b where b: "isinstance v types = Inr b"
    by auto
  from Cons have "isinstance_each types vs = Inr (map (\<lambda>v. isinstance v types = Inr True) vs)"
    by simp
  with b show ?case
    by simp
qed

lemma isinstance_each_raises:
  "\<exists>v\<in>set vs. \<exists>e. isinstance v types = Inl e \<Longrightarrow> \<exists>e. isinstance_each types vs = Inl e"
proof (induction vs)
  case Nil
  then show ?case by simp
next
  case (Cons v vs)
  show ?case
  proof (cases "isinstance v types")
    case (Inl e)
    then show ?thesis by simp
  next
    case (Inr b)
    with Cons.prems have "\<exists>v\<in>set vs. \<exists>e. isinstance v types = Inl e"
      by auto
    then obtain e where "isinstance_each types vs = Inl e"
      using Cons.IH by blast
    with Inr show ?thesis by simp
  qed
qed

lemma isinstance_each_answers_iff:
  "(\<exists>oks. isinstance_each types vs = Inr oks) \<longleftrightarrow> (\<forall>v\<in>set vs. \<exists>b. isinstance v types = Inr b)"
proof
  assume a: "\<exists>oks. isinstance_each types vs = Inr oks"
  show "\<forall>v\<in>set vs. \<exists>b. isinstance v types = Inr b"
  proof (rule ccontr)
    assume "\<not> (\<forall>v\<in>set vs. \<exists>b. isinstance v types = Inr b)"
    then obtain v where "v \<in> set vs" and "\<forall>b. isinstance v types \<noteq> Inr b"
      by blast
    then have "\<exists>v\<in>set vs. \<exists>e. isinstance v types = Inl e"
      by (cases "isinstance v types") auto
    then have "\<exists>e. isinstance_each types vs = Inl e"
      by (rule isinstance_each_raises)
    with a show False by auto
  qed
next
  assume "\<forall>v\<in>set vs. \<exists>b. isinstance v types = Inr b"
  then show "\<exists>oks. isinstance_each types vs = Inr oks"
    by (simp add: isinstance_each_answers)
qed

lemma wrapper_accepts:
  assumes "\<forall>v\<in>set args \<union> snd ` set kwargs. isinstance v (param_types func) = Inr True"
  shows "wrapper func args kwargs w = body func args kwargs w"
proof -
  have a: "isinstance_each (param_types func) args
             = Inr (map (\<lambda>v. isinstance v (param_types func) = Inr True) args)"
    using assms by (intro isinstance_each_answers) auto
  have k: "isinstance_each (param_types func) (map snd kwargs)
             = Inr (map (\<lambda>v. isinstance v (param_types func) = Inr True) (map snd kwargs))"
    using assms by (intro isinstance_each_answers) auto
  show ?thesis
    using assms by (simp add: wrapper_def a k list_all_iff)
qed

lemma wrapper_rejects:
  assumes "\<forall>v\<in>set args \<union> snd ` set kwargs. \<exists>b. isinstance v (param_types func) = Inr b"
    and "\<exists>v\<in>set args \<union> snd ` set kwargs. isinstance v (param_types func) = Inr False"
  shows "wrapper func args kwargs w = (Inl (TypeError (BadArgTypes (name func) args kwargs)), w)"
proof -
  have a: "isinstance_each (param_types func) args
             = Inr (map (\<lambda>v. isinstance v (param_types func) = Inr True) args)"
    using assms(1) by (intro isinstance_each_answers) auto
  have k: "isinstance_each (param_types func) (map snd kwargs)
             = Inr (map (\<lambda>v. isinstance v (param_types func) = Inr True) (map snd kwargs))"
    using assms(1) by (intro isinstance_each_answers) auto
  from assms(2) obtain v where v: "v \<in> set args \<union> snd ` set kwargs"
    and "isinstance v (param_types func) = Inr False"
    by blast
  then have "isinstance v (param_types func) \<noteq> Inr True"
    by simp
  with v have "\<not> (\<forall>v\<in>set args. isinstance v (param_types func) = Inr True) \<or>
               \<not> (\<forall>v\<in>snd ` set kwargs. isinstance v (param_types func) = Inr True)"
    by blast
  then show ?thesis
    by (simp add: wrapper_def a k list_all_iff)
qed

lemma wrapper_raises:
  assumes "\<exists>v\<in>set args \<union> snd ` set kwargs. \<exists>e. isinstance v (param_types func) = Inl e"
  shows "\<exists>e. wrapper func args kwargs w = (Inl e, w)"
proof (cases "isinstance_each (param_types func) args")
  case (Inl e)
  then show ?thesis by (simp add: wrapper_def)
next
  case (Inr args_ok)
  then have "\<forall>v\<in>set args. \<exists>b. isinstance v (param_types func) = Inr b"
    using isinstance_each_answers_iff [of "param_types func" args] by blast
  with assms have "\<exists>v\<in>set (map snd kwargs). \<exists>e. isinstance v (param_types func) = Inl e"
    by auto
  then obtain e where "isinstance_each (param_types func) (map snd kwargs) = Inl e"
    using isinstance_each_raises by blast
  with Inr show ?thesis by (simp add: wrapper_def)
qed

lemma body_strict [simp]: "body (strict func) = wrapper func"
  by (simp add: strict_def)

lemma param_types_strict [simp]: "param_types (strict func) = param_types func"
  by (simp add: param_types_def strict_def)

lemma name_strict [simp]: "name (strict func) = name func"
  by (simp add: strict_def)

lemma sum_two_3_7: "body (sum_two fadd) [VInt 3, VInt 7] [] w = (Inr (VInt 10), w)"
  by (simp add: sum_two_def wrapper_def)
     (simp add: sum_two_undecorated_def bind_a_b_def positional_slots_def py_add_def)

lemma sum_two_kw_12_8:
  "body (sum_two fadd) [] [(ascii ''a'', VInt 12), (ascii ''b'', VInt 8)] w = (Inr (VInt 20), w)"
  by (simp add: sum_two_def wrapper_def)
     (simp add: sum_two_undecorated_def bind_a_b_def positional_slots_def py_add_def ascii_def)

lemma sum_two_1_str2:
  "body (sum_two fadd) [VInt 1, VStr (ascii ''2'')] [] w
     = (Inl (TypeError (BadArgTypes (ascii ''sum_two'') [VInt 1, VStr (ascii ''2'')] [])), w)"
  by (simp add: sum_two_def wrapper_def)
     (simp add: sum_two_undecorated_def)

lemma sum_two_float_2:
  "body (sum_two fadd) [VFloat (3 / 2), VInt 2] [] w
     = (Inl (TypeError (BadArgTypes (ascii ''sum_two'') [VFloat (3 / 2), VInt 2] [])), w)"
  by (simp add: sum_two_def wrapper_def)
     (simp add: sum_two_undecorated_def)

lemma any_int_undecorated:
  "body (any_int_function fadd) [VInt 1, VInt 2] [] w = (Inr (VInt 3), w)"
  by (simp add: any_int_function_def sum_two_undecorated_def bind_a_b_def positional_slots_def
        py_add_def)

lemma any_int_decorated:
  "body (strict (any_int_function fadd)) [x, y] [] w
     = (Inl (TypeError (IsinstanceRefuses (ascii ''typing.Any''))), w)"
  by (simp add: wrapper_def typing_Any_def)







text \<open>
  C3.  Validation is membership in the set of all declared types, not a pairing of
  argument and parameter: for any function declared with \<open>(a: int, b: str)\<close>, a call
  that passes integers for both \<open>a\<close> and \<open>b\<close>, by position or by keyword, passes
  validation and is handed to the wrapped function.
\<close>

theorem strict_flat_membership:
  assumes "annotations func = [(ascii ''a'', Class TInt), (ascii ''b'', Class TStr)]"
  shows "body (strict func) [VInt x, VInt y] [] w = body func [VInt x, VInt y] [] w \<and>
         body (strict func) [] [(ascii ''a'', VInt x), (ascii ''b'', VInt y)] w
           = body func [] [(ascii ''a'', VInt x), (ascii ''b'', VInt y)] w"
proof -
  from assms have "param_types func = [Class TInt, Class TStr]"
    by (simp add: param_types_def ascii_def)
  then show ?thesis
    by (simp add: wrapper_def)
qed

theorem strict_flat_membership_witness:
  "annotations ((sum_two_undecorated fadd_exact :: (unit, pyval) pyfunc)
                  \<lparr>annotations := [(ascii ''a'', Class TInt), (ascii ''b'', Class TStr)]\<rparr>)
     = [(ascii ''a'', Class TInt), (ascii ''b'', Class TStr)] \<and>
   body (strict ((sum_two_undecorated fadd_exact)
                   \<lparr>annotations := [(ascii ''a'', Class TInt), (ascii ''b'', Class TStr)]\<rparr>))
        [VInt 1, VInt 2] [] ()
     = (Inr (VInt 3), ())"
proof -
  let ?f = "(sum_two_undecorated fadd_exact :: (unit, pyval) pyfunc)
              \<lparr>annotations := [(ascii ''a'', Class TInt), (ascii ''b'', Class TStr)]\<rparr>"
  have a: "annotations ?f = [(ascii ''a'', Class TInt), (ascii ''b'', Class TStr)]"
    by simp
  have b: "body ?f [VInt 1, VInt 2] [] () = (Inr (VInt 3), ())"
    by (simp add: sum_two_undecorated_def bind_a_b_def positional_slots_def py_add_def)
  from strict_flat_membership [OF a, of 1 2 "()"] a b show ?thesis
    by simp
qed



section \<open>Properties of the scraper\<close>

subsection \<open>Searching a document\<close>

lemma find_append_case:
  "List.find p (xs @ ys) = (case List.find p xs of None \<Rightarrow> List.find p ys | Some x \<Rightarrow> Some x)"
  by (induction xs) simp_all

lemma soup_find_Nil: "soup_find p (Tag n a []) = None"
  by (simp add: soup_find_def)

lemma soup_find_Cons:
  "soup_find p (Tag n a (c # cs)) =
     (if p c then Some c
      else (case soup_find p c of None \<Rightarrow> soup_find p (Tag n a cs) | Some r \<Rightarrow> Some r))"
  by (simp add: soup_find_def find_append_case split: option.split)

lemma soup_find_string: "soup_find p (NavigableString s) = None"
  by (simp add: soup_find_def)

lemma soup_find_comment: "soup_find p (Comment s) = None"
  by (simp add: soup_find_def)

lemma soup_find_all_Nil: "soup_find_all p (Tag n a []) = []"
  by (simp add: soup_find_all_def)

lemma soup_find_all_Cons:
  "soup_find_all p (Tag n a (c # cs)) =
     (if p c then [c] else []) @ soup_find_all p c @ soup_find_all p (Tag n a cs)"
  by (simp add: soup_find_all_def)

lemma soup_find_all_string: "soup_find_all p (NavigableString s) = []"
  by (simp add: soup_find_all_def)

lemma soup_find_all_comment: "soup_find_all p (Comment s) = []"
  by (simp add: soup_find_all_def)

lemmas search_simps =
  soup_find_Nil soup_find_Cons soup_find_string soup_find_comment
  soup_find_all_Nil soup_find_all_Cons soup_find_all_string soup_find_all_comment

lemmas matcher_defs =
  is_mw_pages_def is_content_ltr_def is_category_group_def is_next_link_def
  has_class_def ascii_def is_space_def

text \<open>\<open>find\<close> returns the first of the nodes that \<open>find_all\<close> returns.\<close>

lemma find_filter_case:
  "List.find p xs = (case filter p xs of [] \<Rightarrow> None | x # rest \<Rightarrow> Some x)"
  by (induction xs) simp_all

lemma soup_find_first:
  "soup_find p n = (case soup_find_all p n of [] \<Rightarrow> None | x # rest \<Rightarrow> Some x)"
  by (simp add: soup_find_def soup_find_all_def find_filter_case)

subsection \<open>The dictionary\<close>

lemma map_of_dict_set: "map_of (dict_set d k v) = (map_of d)(k \<mapsto> v)"
  by (induction d) (auto simp add: fun_eq_iff)

lemma dict_get_dict_set:
  "dict_get (dict_set d k v) k' dflt = (if k' = k then v else dict_get d k' dflt)"
  by (simp add: dict_get_def map_of_dict_set)

lemma keys_dict_set:
  "map fst (dict_set d k v) = (if k \<in> fst ` set d then map fst d else map fst d @ [k])"
proof (induction d)
  case Nil
  show ?case by simp
next
  case (Cons p d)
  obtain k' v' where p: "p = (k', v')"
    by (cases p)
  show ?case
  proof (cases "k' = k")
    case True
    then show ?thesis by (simp add: p)
  next
    case False
    then show ?thesis using Cons.IH by (simp add: p)
  qed
qed

lemma distinct_dict_set: "distinct (map fst d) \<Longrightarrow> distinct (map fst (dict_set d k v))"
  by (simp add: keys_dict_set)

subsection \<open>What \<open>parse_group\<close> and \<open>parse_page\<close> leave alone\<close>

lemma parse_group_fields:
  "only_russian (parse_group lower self grp) = only_russian self"
  "self_russian_letters (parse_group lower self grp) = self_russian_letters self"
  "logged (parse_group lower self grp) = logged self"
  "pages_processed (parse_group lower self grp) = pages_processed self"
  "base_url (parse_group lower self grp) = base_url self"
  "timeout (parse_group lower self grp) = timeout self"
  by (simp_all add: parse_group_def Let_def split: option.split)

lemma parse_groups_fields:
  "only_russian (foldl (parse_group lower) self groups) = only_russian self"
  "self_russian_letters (foldl (parse_group lower) self groups) = self_russian_letters self"
  "logged (foldl (parse_group lower) self groups) = logged self"
  "pages_processed (foldl (parse_group lower) self groups) = pages_processed self"
  "base_url (foldl (parse_group lower) self groups) = base_url self"
  "timeout (foldl (parse_group lower) self groups) = timeout self"
  by (induction groups arbitrary: self) (simp_all add: parse_group_fields)

text \<open>
  A group without a heading or without a list changes nothing; the other groups are
  the ones that count.
\<close>

lemma parse_group_incomplete:
  "soup_find (is_tag_named (ascii ''h3'')) grp = None \<or>
   soup_find (is_tag_named (ascii ''ul'')) grp = None \<Longrightarrow>
   parse_group lower self grp = self"
  by (auto simp add: parse_group_def split: option.split)

lemma parse_groups_complete_only:
  "foldl (parse_group lower) self groups =
   foldl (parse_group lower) self
     (filter (\<lambda>grp. soup_find (is_tag_named (ascii ''h3'')) grp \<noteq> None \<and>
                    soup_find (is_tag_named (ascii ''ul'')) grp \<noteq> None) groups)"
proof (induction groups arbitrary: self)
  case Nil
  show ?case by simp
next
  case (Cons grp groups)
  show ?case
  proof (cases "soup_find (is_tag_named (ascii ''h3'')) grp \<noteq> None \<and>
                soup_find (is_tag_named (ascii ''ul'')) grp \<noteq> None")
    case True
    then show ?thesis using Cons.IH by simp
  next
    case False
    then have "parse_group lower self grp = self"
      by (intro parse_group_incomplete) blast
    with False show ?thesis using Cons.IH by simp
  qed
qed

text \<open>
  The mapping after a group, and after a page, depends on the scraper only through
  the mapping before, the flag and the alphabet.
\<close>

lemma parse_group_letters_cong:
  assumes "letters_result s1 = letters_result s2"
    and "only_russian s1 = only_russian s2"
    and "self_russian_letters s1 = self_russian_letters s2"
  shows "letters_result (parse_group lower s1 grp) = letters_result (parse_group lower s2 grp)"
proof (cases "soup_find (is_tag_named (ascii ''h3'')) grp")
  case None
  then show ?thesis using assms by (simp add: parse_group_def)
next
  case h3: (Some letter_tag)
  show ?thesis
  proof (cases "soup_find (is_tag_named (ascii ''ul'')) grp")
    case None
    with h3 show ?thesis using assms by (simp add: parse_group_def)
  next
    case (Some ul_tag)
    with h3 show ?thesis using assms by (simp add: parse_group_def Let_def)
  qed
qed

lemma parse_groups_letters_cong:
  assumes "letters_result s1 = letters_result s2"
    and "only_russian s1 = only_russian s2"
    and "self_russian_letters s1 = self_russian_letters s2"
  shows "letters_result (foldl (parse_group lower) s1 groups)
           = letters_result (foldl (parse_group lower) s2 groups)"
  using assms
proof (induction groups arbitrary: s1 s2)
  case Nil
  then show ?case by simp
next
  case (Cons grp groups)
  have "letters_result (parse_group lower s1 grp) = letters_result (parse_group lower s2 grp)"
    using Cons.prems by (rule parse_group_letters_cong)
  moreover have "only_russian (parse_group lower s1 grp) = only_russian (parse_group lower s2 grp)"
    using Cons.prems by (simp add: parse_group_fields)
  moreover have "self_russian_letters (parse_group lower s1 grp)
                   = self_russian_letters (parse_group lower s2 grp)"
    using Cons.prems by (simp add: parse_group_fields)
  ultimately have "letters_result (foldl (parse_group lower) (parse_group lower s1 grp) groups)
                     = letters_result (foldl (parse_group lower) (parse_group lower s2 grp) groups)"
    by (rule Cons.IH)
  then show ?case
    by simp
qed

lemma parse_page_letters_cong:
  assumes "letters_result s1 = letters_result s2"
    and "only_russian s1 = only_russian s2"
    and "self_russian_letters s1 = self_russian_letters s2"
  shows "letters_result (parse_page lower s1 soup) = letters_result (parse_page lower s2 soup)"
proof (cases "soup_find is_mw_pages soup")
  case None
  then show ?thesis using assms by (simp add: parse_page_def)
next
  case (Some category_div)
  show ?thesis
  proof (cases "soup_find is_content_ltr category_div")
    case None
    with Some show ?thesis using assms by (simp add: parse_page_def)
  next
    case (Some content_div)
    with \<open>soup_find is_mw_pages soup = Some category_div\<close> show ?thesis
      using parse_groups_letters_cong [OF assms] by (simp add: parse_page_def)
  qed
qed

subsection \<open>The example pages\<close>

lemma category_page_mw_pages:
  "soup_find is_mw_pages (category_page groups)
     = Some (Tag (ascii ''div'') [(ascii ''id'', ascii ''mw-pages'')]
               [Tag (ascii ''div'') [(ascii ''class'', ascii ''mw-content-ltr'')] groups])"
  by (simp add: category_page_def document_def search_simps is_mw_pages_def ascii_def)

lemma category_page_content:
  "soup_find is_content_ltr
     (Tag (ascii ''div'') [(ascii ''id'', ascii ''mw-pages'')]
        [Tag (ascii ''div'') [(ascii ''class'', ascii ''mw-content-ltr'')] groups])
     = Some (Tag (ascii ''div'') [(ascii ''class'', ascii ''mw-content-ltr'')] groups)"
  by (simp add: search_simps matcher_defs)

lemma parse_category_page:
  "parse_page lower self (category_page groups) =
     foldl (parse_group lower) self
       (soup_find_all is_category_group
          (Tag (ascii ''div'') [(ascii ''class'', ascii ''mw-content-ltr'')] groups))"
  by (simp add: parse_page_def category_page_mw_pages category_page_content)

lemma entry_is_li:
  "soup_find_all (is_tag_named (ascii ''li'')) (Tag n a (map entry titles))
     = map entry titles"
  by (induction titles) (simp_all add: search_simps entry_def ascii_def)

lemma entry_no_group: "soup_find_all is_category_group (entry title) = []"
  by (simp add: search_simps entry_def is_category_group_def ascii_def)

lemma entries_no_group:
  "soup_find_all is_category_group (Tag n a (map entry titles)) = []"
  by (induction titles)
     (simp_all add: search_simps entry_no_group, simp add: entry_def is_category_group_def ascii_def)

lemma is_category_group_category_group: "is_category_group (category_group heading titles)"
  by (simp add: category_group_def matcher_defs)

lemma category_group_inside:
  "soup_find_all is_category_group (category_group heading titles) = []"
  by (simp add: category_group_def search_simps entries_no_group)
     (simp add: is_category_group_def ascii_def)

lemma category_group_heading:
  "soup_find (is_tag_named (ascii ''h3'')) (category_group heading titles)
     = Some (Tag (ascii ''h3'') [] [NavigableString heading])"
  by (simp add: category_group_def search_simps)

lemma category_group_list:
  "soup_find (is_tag_named (ascii ''ul'')) (category_group heading titles)
     = Some (Tag (ascii ''ul'') [] (map entry titles))"
  by (simp add: category_group_def search_simps ascii_def)

lemma heading_text: "text_of (Tag n a [NavigableString heading]) = heading"
  by (simp add: text_of_def)

text \<open>What a complete group of the example pages does to the scraper.\<close>

lemma parse_category_group:
  "parse_group lower self (category_group heading titles) =
     (if only_russian self \<and>
         \<not> is_substring (lower (strip heading)) (self_russian_letters self)
      then self
      else self\<lparr>letters_result :=
                  dict_set (letters_result self) (strip heading)
                    (dict_get (letters_result self) (strip heading) 0 + int (length titles))\<rparr>)"
  by (simp add: parse_group_def category_group_heading category_group_list heading_text
      entry_is_li Let_def)

lemmas page_simps =
  parse_category_page search_simps is_category_group_category_group category_group_inside
  parse_category_group

lemma strip_letter [simp]:
  "strip letter_A = letter_A" "strip letter_B = letter_B" "strip letter_C = letter_C"
  "strip (letter_A @ letter_B) = letter_A @ letter_B" "strip [0xA0] = []"
  by (simp_all add: strip_def is_space_def letter_A_def letter_B_def letter_C_def ascii_def)

lemma letters_distinct [simp]:
  "letter_A \<noteq> letter_B" "letter_B \<noteq> letter_A" "letter_A @ letter_B \<noteq> letter_B"
  "letter_B \<noteq> letter_A @ letter_B" "letter_B \<noteq> []" "letter_A @ letter_B \<noteq> []"
  "[] \<noteq> letter_B" "[] \<noteq> letter_A @ letter_B"
  by (simp_all add: letter_A_def letter_B_def)

lemma parse_page_A:
  "parse_page lower_basic (init False) page_A = (init False)\<lparr>letters_result := [(letter_A, 2)]\<rparr>"
  by (simp add: page_A_def page_simps) (simp add: init_def dict_get_def)

lemma parse_page_B:
  "parse_page lower_basic (init False) page_B
     = (init False)\<lparr>letters_result := [(letter_A, 1), (letter_B, 1)]\<rparr>"
  by (simp add: page_B_def page_simps) (simp add: init_def dict_get_def)

lemma parse_page_A_then_B:
  "parse_page lower_basic (parse_page lower_basic (init False) page_A) page_B
     = (init False)\<lparr>letters_result := [(letter_A, 3), (letter_B, 1)]\<rparr>"
  by (simp add: parse_page_A) (simp add: page_B_def page_simps, simp add: init_def dict_get_def)

lemma group_no_list_facts:
  "is_category_group group_no_list"
  "soup_find_all is_category_group group_no_list = []"
  "soup_find (is_tag_named (ascii ''ul'')) group_no_list = None"
  by (simp_all add: group_no_list_def search_simps matcher_defs)

lemma group_no_heading_facts:
  "is_category_group group_no_heading"
  "soup_find_all is_category_group group_no_heading = []"
  "soup_find (is_tag_named (ascii ''h3'')) group_no_heading = None"
  by (simp_all add: group_no_heading_def search_simps entry_def matcher_defs)

lemma parse_group_no_list: "parse_group lower self group_no_list = self"
  by (rule parse_group_incomplete) (simp add: group_no_list_facts)

lemma parse_group_no_heading: "parse_group lower self group_no_heading = self"
  by (rule parse_group_incomplete) (simp add: group_no_heading_facts)

lemma parse_page_incomplete_groups:
  "parse_page lower_basic (init False) page_incomplete_groups
     = (init False)\<lparr>letters_result := [(letter_B, 1)]\<rparr>"
  by (simp add: page_incomplete_groups_def page_simps group_no_list_facts
        group_no_heading_facts parse_group_no_list parse_group_no_heading)
     (simp add: init_def dict_get_def)

text \<open>The first case of \<open>test_parse_page\<close>.\<close>

lemma parse_test_1:
  "letters_result (parse_page lower_basic (init False) HTML_PARSE_1)
     = [(letter_A, 2), (letter_B, 1)]"
  by (simp add: parse_page_def parse_group_def HTML_PARSE_1_def document_def mw_pages_def
        indent_def entry_def search_simps matcher_defs init_def text_of_def strip_def
        dict_get_def letter_A_def letter_B_def)

lemma no_mw_pages_no_next: "soup_find is_mw_pages HTML_NO_NEXT = None"
  by (simp add: HTML_NO_NEXT_def document_def search_simps is_mw_pages_def ascii_def)

lemma page_no_content_facts:
  "soup_find is_mw_pages page_no_content
     = Some (Tag (ascii ''div'') [(ascii ''id'', ascii ''mw-pages'')] [indent 4])"
  "soup_find is_content_ltr (Tag (ascii ''div'') [(ascii ''id'', ascii ''mw-pages'')] [indent 4])
     = None"
  by (simp_all add: page_no_content_def document_def indent_def search_simps matcher_defs)

subsection \<open>Pages without the expected structure\<close>

text \<open>
  C6, as stated, fails for a group that lacks its list.  The first group of
  \<open>page_incomplete_groups\<close> is a letter group without a list element; parsing the page
  logs no warning and does change the mapping, which gets the entry of the third
  group.
\<close>

theorem missing_list_counterexample:
  "is_category_group group_no_list \<and>
   soup_find (is_tag_named (ascii ''ul'')) group_no_list = None \<and>
   page_incomplete_groups
     = category_page [group_no_list, group_no_heading, category_group letter_B [title_bobr]] \<and>
   logged (parse_page lower_basic (init False) page_incomplete_groups) = logged (init False) \<and>
   letters_result (init False) = [] \<and>
   letters_result (parse_page lower_basic (init False) page_incomplete_groups) = [(letter_B, 1)]"
  by (simp add: group_no_list_facts parse_page_incomplete_groups)
     (simp add: page_incomplete_groups_def init_def)

text \<open>
  C6, amended.  When the document has no container \<open>div id="mw-pages"\<close>, or the
  container has no block \<open>div class="mw-content-ltr"\<close>, \<open>_parse_page\<close> logs one
  warning and returns: the scraper is as before but for the log, so the mapping and the
  page counter are unchanged, and nothing is raised.
\<close>

theorem missing_container_warns_and_returns:
  "(soup_find is_mw_pages soup = None \<longrightarrow>
      parse_page lower self soup = self\<lparr>logged := logged self @ [(WARNING, MwPagesNotFound)]\<rparr>) \<and>
   (soup_find is_mw_pages soup = Some category_div \<and>
    soup_find is_content_ltr category_div = None \<longrightarrow>
      parse_page lower self soup
        = self\<lparr>logged := logged self @ [(WARNING, ContentLtrNotFound)]\<rparr>) \<and>
   (soup_find is_mw_pages soup = None \<or>
    (soup_find is_mw_pages soup = Some category_div \<and>
     soup_find is_content_ltr category_div = None) \<longrightarrow>
      letters_result (parse_page lower self soup) = letters_result self \<and>
      pages_processed (parse_page lower self soup) = pages_processed self)"
  by (auto simp add: parse_page_def)

theorem missing_container_warns_and_returns_witness:
  "soup_find is_mw_pages HTML_NO_NEXT = None \<and>
   parse_page lower_basic (init True) HTML_NO_NEXT
     = (init True)\<lparr>logged := [(WARNING, MwPagesNotFound)]\<rparr> \<and>
   parse_page lower_basic (init True) page_no_content
     = (init True)\<lparr>logged := [(WARNING, ContentLtrNotFound)]\<rparr>"
proof -
  have l: "logged (init True) = []"
    by (simp add: init_def)
  have "parse_page lower_basic (init True) HTML_NO_NEXT
          = (init True)\<lparr>logged := logged (init True) @ [(WARNING, MwPagesNotFound)]\<rparr>"
    using missing_container_warns_and_returns
            [of HTML_NO_NEXT lower_basic "init True" "indent 4"]
          no_mw_pages_no_next
    by blast
  moreover have "parse_page lower_basic (init True) page_no_content
          = (init True)\<lparr>logged := logged (init True) @ [(WARNING, ContentLtrNotFound)]\<rparr>"
    using missing_container_warns_and_returns
            [of page_no_content lower_basic "init True"
                "Tag (ascii ''div'') [(ascii ''id'', ascii ''mw-pages'')] [indent 4]"]
          page_no_content_facts
    by blast
  ultimately show ?thesis
    using no_mw_pages_no_next by (simp add: l)
qed

text \<open>
  C10.  On a page with its container and content block, no warning is logged and
  nothing returns early: the page is parsed as if the groups without a heading or
  without a list were not there, and every other group is processed, in order.  A
  group without a heading or without a list leaves the scraper as it is.
\<close>

theorem incomplete_groups_skipped_silently:
  assumes "soup_find is_mw_pages soup = Some category_div"
    and "soup_find is_content_ltr category_div = Some content_div"
  shows "logged (parse_page lower self soup) = logged self \<and>
         parse_page lower self soup =
           foldl (parse_group lower) self
             (filter (\<lambda>grp. soup_find (is_tag_named (ascii ''h3'')) grp \<noteq> None \<and>
                            soup_find (is_tag_named (ascii ''ul'')) grp \<noteq> None)
                (soup_find_all is_category_group content_div)) \<and>
         (\<forall>grp s. soup_find (is_tag_named (ascii ''h3'')) grp = None \<or>
                  soup_find (is_tag_named (ascii ''ul'')) grp = None \<longrightarrow>
                  parse_group lower s grp = s)"
proof (intro conjI allI impI)
  have p: "parse_page lower self soup =
             foldl (parse_group lower) self (soup_find_all is_category_group content_div)"
    using assms by (simp add: parse_page_def)
  show "logged (parse_page lower self soup) = logged self"
    by (simp only: p parse_groups_fields)
  show "parse_page lower self soup =
          foldl (parse_group lower) self
            (filter (\<lambda>grp. soup_find (is_tag_named (ascii ''h3'')) grp \<noteq> None \<and>
                           soup_find (is_tag_named (ascii ''ul'')) grp \<noteq> None)
               (soup_find_all is_category_group content_div))"
    by (simp only: p) (rule parse_groups_complete_only)
next
  fix grp s
  assume "soup_find (is_tag_named (ascii ''h3'')) grp = None \<or>
          soup_find (is_tag_named (ascii ''ul'')) grp = None"
  then show "parse_group lower s grp = s"
    by (rule parse_group_incomplete)
qed

theorem incomplete_groups_skipped_silently_witness:
  "logged (parse_page lower_basic (init False) page_incomplete_groups) = [] \<and>
   parse_page lower_basic (init False) page_incomplete_groups
     = parse_group lower_basic (init False) (category_group letter_B [title_bobr]) \<and>
   letters_result (parse_page lower_basic (init False) page_incomplete_groups) = [(letter_B, 1)]"
proof -
  let ?content = "Tag (ascii ''div'') [(ascii ''class'', ascii ''mw-content-ltr'')]
                    [group_no_list, group_no_heading, category_group letter_B [title_bobr]]"
  have a: "soup_find is_mw_pages page_incomplete_groups
             = Some (Tag (ascii ''div'') [(ascii ''id'', ascii ''mw-pages'')] [?content])"
    by (simp only: page_incomplete_groups_def category_page_mw_pages)
  have b: "soup_find is_content_ltr (Tag (ascii ''div'') [(ascii ''id'', ascii ''mw-pages'')] [?content])
             = Some ?content"
    by (rule category_page_content)
  have g: "soup_find_all is_category_group ?content
             = [group_no_list, group_no_heading, category_group letter_B [title_bobr]]"
    by (simp add: search_simps group_no_list_facts group_no_heading_facts
          is_category_group_category_group category_group_inside)
  have f: "filter (\<lambda>grp. soup_find (is_tag_named (ascii ''h3'')) grp \<noteq> None \<and>
                         soup_find (is_tag_named (ascii ''ul'')) grp \<noteq> None)
             [group_no_list, group_no_heading, category_group letter_B [title_bobr]]
             = [category_group letter_B [title_bobr]]"
    by (simp add: group_no_list_facts group_no_heading_facts category_group_heading
          category_group_list)
  have l: "logged (init False) = []"
    by (simp add: init_def)
  note t = incomplete_groups_skipped_silently [OF a b, of lower_basic "init False"]
  from t have "logged (parse_page lower_basic (init False) page_incomplete_groups)
                 = logged (init False)"
    by (rule conjunct1)
  then have c1: "logged (parse_page lower_basic (init False) page_incomplete_groups) = []"
    by (simp only: l)
  from t have "parse_page lower_basic (init False) page_incomplete_groups =
                 foldl (parse_group lower_basic) (init False)
                   (filter (\<lambda>grp. soup_find (is_tag_named (ascii ''h3'')) grp \<noteq> None \<and>
                                  soup_find (is_tag_named (ascii ''ul'')) grp \<noteq> None)
                      (soup_find_all is_category_group ?content))"
    by (rule conjunct2 [THEN conjunct1])
  then have c2: "parse_page lower_basic (init False) page_incomplete_groups
                   = parse_group lower_basic (init False) (category_group letter_B [title_bobr])"
    by (simp only: g f foldl.simps)
  have c3: "letters_result (parse_page lower_basic (init False) page_incomplete_groups)
              = [(letter_B, 1)]"
    by (simp add: parse_page_incomplete_groups)
  from c1 c2 c3 show ?thesis
    by (intro conjI)
qed

subsection \<open>Parsing into a fresh mapping\<close>

text \<open>
  C8.  Parsing the same page content into a fresh (empty) mapping gives the same
  mapping every time: the result is a function of the page, the filtering flag and the
  alphabet, whatever else the two scrapers hold (their logs, their page counters).
\<close>

theorem parse_page_fresh_deterministic:
  assumes "letters_result s1 = []" and "letters_result s2 = []"
    and "only_russian s1 = only_russian s2"
    and "self_russian_letters s1 = self_russian_letters s2"
  shows "letters_result (parse_page lower s1 soup) = letters_result (parse_page lower s2 soup)"
  using assms by (intro parse_page_letters_cong) simp_all

theorem parse_page_fresh_deterministic_witness:
  "letters_result (parse_page lower_basic (init False) page_B) = [(letter_A, 1), (letter_B, 1)] \<and>
   letters_result
     (parse_page lower_basic
        ((init False)\<lparr>pages_processed := 7, logged := [(DEBUG, NextPageNotFound)]\<rparr>) page_B)
     = [(letter_A, 1), (letter_B, 1)]"
proof -
  let ?s2 = "(init False)\<lparr>pages_processed := 7, logged := [(DEBUG, NextPageNotFound)]\<rparr>"
  have "letters_result (parse_page lower_basic (init False) page_B)
          = letters_result (parse_page lower_basic ?s2 page_B)"
    by (rule parse_page_fresh_deterministic) (simp_all add: init_def)
  then show ?thesis
    by (simp add: parse_page_B)
qed

subsection \<open>The additive merge\<close>

lemma parse_group_additive:
  assumes "\<forall>k. dict_get (letters_result s) k 0 = c k + dict_get (letters_result s') k 0"
    and "only_russian s = only_russian s'"
    and "self_russian_letters s = self_russian_letters s'"
  shows "\<forall>k. dict_get (letters_result (parse_group lower s grp)) k 0
               = c k + dict_get (letters_result (parse_group lower s' grp)) k 0"
proof (cases "soup_find (is_tag_named (ascii ''h3'')) grp")
  case None
  then show ?thesis using assms(1) by (simp add: parse_group_def)
next
  case h3: (Some letter_tag)
  show ?thesis
  proof (cases "soup_find (is_tag_named (ascii ''ul'')) grp")
    case None
    with h3 show ?thesis using assms(1) by (simp add: parse_group_def)
  next
    case (Some ul_tag)
    with h3 show ?thesis
      using assms by (simp add: parse_group_def Let_def dict_get_dict_set)
  qed
qed

lemma parse_groups_additive:
  assumes "\<forall>k. dict_get (letters_result s) k 0 = c k + dict_get (letters_result s') k 0"
    and "only_russian s = only_russian s'"
    and "self_russian_letters s = self_russian_letters s'"
  shows "\<forall>k. dict_get (letters_result (foldl (parse_group lower) s groups)) k 0
               = c k + dict_get (letters_result (foldl (parse_group lower) s' groups)) k 0"
  using assms
proof (induction groups arbitrary: s s')
  case Nil
  then show ?case by simp
next
  case (Cons grp groups)
  have "\<forall>k. dict_get (letters_result (parse_group lower s grp)) k 0
               = c k + dict_get (letters_result (parse_group lower s' grp)) k 0"
    using Cons.prems by (rule parse_group_additive)
  moreover have "only_russian (parse_group lower s grp) = only_russian (parse_group lower s' grp)"
    using Cons.prems by (simp add: parse_group_fields)
  moreover have "self_russian_letters (parse_group lower s grp)
                   = self_russian_letters (parse_group lower s' grp)"
    using Cons.prems by (simp add: parse_group_fields)
  ultimately have
    "\<forall>k. dict_get (letters_result (foldl (parse_group lower) (parse_group lower s grp) groups)) k 0
          = c k + dict_get (letters_result
                     (foldl (parse_group lower) (parse_group lower s' grp) groups)) k 0"
    by (rule Cons.IH)
  then show ?case
    by simp
qed

lemma parse_page_additive:
  "dict_get (letters_result (parse_page lower self soup)) k 0
     = dict_get (letters_result self) k 0
       + dict_get (letters_result (parse_page lower (self\<lparr>letters_result := []\<rparr>) soup)) k 0"
proof (cases "soup_find is_mw_pages soup")
  case None
  then show ?thesis by (simp add: parse_page_def dict_get_def)
next
  case mw: (Some category_div)
  show ?thesis
  proof (cases "soup_find is_content_ltr category_div")
    case None
    with mw show ?thesis by (simp add: parse_page_def dict_get_def)
  next
    case (Some content_div)
    have "\<forall>k. dict_get (letters_result self) k 0
                 = dict_get (letters_result self) k 0
                   + dict_get (letters_result (self\<lparr>letters_result := []\<rparr>)) k 0"
      by (simp add: dict_get_def)
    then have "\<forall>k. dict_get (letters_result (foldl (parse_group lower) self
                                  (soup_find_all is_category_group content_div))) k 0
                 = dict_get (letters_result self) k 0
                   + dict_get (letters_result (foldl (parse_group lower)
                                  (self\<lparr>letters_result := []\<rparr>)
                                  (soup_find_all is_category_group content_div))) k 0"
      by (rule parse_groups_additive) simp_all
    with mw Some show ?thesis
      by (simp add: parse_page_def)
  qed
qed

lemma parse_group_merges:
  assumes "soup_find (is_tag_named (ascii ''h3'')) grp = Some letter_tag"
    and "soup_find (is_tag_named (ascii ''ul'')) grp = Some ul_tag"
    and "only_russian self \<longrightarrow>
           is_substring (lower (strip (text_of letter_tag))) (self_russian_letters self)"
  shows "map_of (letters_result (parse_group lower self grp))
           = (map_of (letters_result self))
               (strip (text_of letter_tag) \<mapsto>
                  dict_get (letters_result self) (strip (text_of letter_tag)) 0
                  + int (length (soup_find_all (is_tag_named (ascii ''li'')) ul_tag)))"
  using assms by (auto simp add: parse_group_def Let_def map_of_dict_set)

subsection \<open>The order of the letters\<close>

lemma parse_page_fields:
  "only_russian (parse_page lower self soup) = only_russian self"
  "self_russian_letters (parse_page lower self soup) = self_russian_letters self"
  "pages_processed (parse_page lower self soup) = pages_processed self"
  "base_url (parse_page lower self soup) = base_url self"
  "timeout (parse_page lower self soup) = timeout self"
  by (simp_all add: parse_page_def parse_groups_fields split: option.split)

lemma dict_keys_dict_set:
  "dict_keys (dict_set d k v) = (if k \<in> set (dict_keys d) then dict_keys d else dict_keys d @ [k])"
  by (simp add: dict_keys_def keys_dict_set)

lemma add_key_filter:
  assumes "K1 = base @ filter (\<lambda>k. k \<notin> set base) K2"
  shows "(if l \<in> set K1 then K1 else K1 @ [l])
           = base @ filter (\<lambda>k. k \<notin> set base) (if l \<in> set K2 then K2 else K2 @ [l])"
  using assms by auto

text \<open>
  Letters already in the mapping keep their places; the letters that a page adds come
  after them, in the order in which the page alone would give them.
\<close>

lemma parse_group_keys:
  assumes "dict_keys (letters_result s1)
             = base @ filter (\<lambda>k. k \<notin> set base) (dict_keys (letters_result s2))"
    and "only_russian s1 = only_russian s2"
    and "self_russian_letters s1 = self_russian_letters s2"
  shows "dict_keys (letters_result (parse_group lower s1 grp))
           = base @ filter (\<lambda>k. k \<notin> set base)
                      (dict_keys (letters_result (parse_group lower s2 grp)))"
proof (cases "soup_find (is_tag_named (ascii ''h3'')) grp")
  case None
  then show ?thesis using assms(1) by (simp add: parse_group_def)
next
  case h3: (Some letter_tag)
  show ?thesis
  proof (cases "soup_find (is_tag_named (ascii ''ul'')) grp")
    case None
    with h3 show ?thesis using assms(1) by (simp add: parse_group_def)
  next
    case ul: (Some ul_tag)
    show ?thesis
    proof (cases "only_russian s2 \<and>
                  \<not> is_substring (lower (strip (text_of letter_tag))) (self_russian_letters s2)")
      case True
      with h3 ul show ?thesis using assms by (simp add: parse_group_def Let_def)
    next
      case False
      obtain n1 where r1: "letters_result (parse_group lower s1 grp)
                             = dict_set (letters_result s1) (strip (text_of letter_tag)) n1"
        using h3 ul False assms(2,3) by (simp add: parse_group_def Let_def)
      obtain n2 where r2: "letters_result (parse_group lower s2 grp)
                             = dict_set (letters_result s2) (strip (text_of letter_tag)) n2"
        using h3 ul False by (simp add: parse_group_def Let_def)
      show ?thesis
        unfolding r1 r2 dict_keys_dict_set by (rule add_key_filter [OF assms(1)])
    qed
  qed
qed

lemma parse_groups_keys:
  assumes "dict_keys (letters_result s1)
             = base @ filter (\<lambda>k. k \<notin> set base) (dict_keys (letters_result s2))"
    and "only_russian s1 = only_russian s2"
    and "self_russian_letters s1 = self_russian_letters s2"
  shows "dict_keys (letters_result (foldl (parse_group lower) s1 groups))
           = base @ filter (\<lambda>k. k \<notin> set base)
                      (dict_keys (letters_result (foldl (parse_group lower) s2 groups)))"
  using assms
proof (induction groups arbitrary: s1 s2)
  case Nil
  then show ?case by simp
next
  case (Cons grp groups)
  have "dict_keys (letters_result (parse_group lower s1 grp))
          = base @ filter (\<lambda>k. k \<notin> set base)
                     (dict_keys (letters_result (parse_group lower s2 grp)))"
    using Cons.prems by (rule parse_group_keys)
  moreover have "only_russian (parse_group lower s1 grp) = only_russian (parse_group lower s2 grp)"
    using Cons.prems by (simp add: parse_group_fields)
  moreover have "self_russian_letters (parse_group lower s1 grp)
                   = self_russian_letters (parse_group lower s2 grp)"
    using Cons.prems by (simp add: parse_group_fields)
  ultimately have
    "dict_keys (letters_result (foldl (parse_group lower) (parse_group lower s1 grp) groups))
       = base @ filter (\<lambda>k. k \<notin> set base)
                  (dict_keys (letters_result
                     (foldl (parse_group lower) (parse_group lower s2 grp) groups)))"
    by (rule Cons.IH)
  then show ?case
    by simp
qed

lemma parse_page_keys:
  "dict_keys (letters_result (parse_page lower self soup))
     = dict_keys (letters_result self)
       @ filter (\<lambda>k. k \<notin> set (dict_keys (letters_result self)))
           (dict_keys (letters_result (parse_page lower (self\<lparr>letters_result := []\<rparr>) soup)))"
proof (cases "soup_find is_mw_pages soup")
  case None
  then show ?thesis by (simp add: parse_page_def dict_keys_def)
next
  case mw: (Some category_div)
  show ?thesis
  proof (cases "soup_find is_content_ltr category_div")
    case None
    with mw show ?thesis by (simp add: parse_page_def dict_keys_def)
  next
    case (Some content_div)
    have "dict_keys (letters_result self)
            = dict_keys (letters_result self)
              @ filter (\<lambda>k. k \<notin> set (dict_keys (letters_result self)))
                  (dict_keys (letters_result (self\<lparr>letters_result := []\<rparr>)))"
      by (simp add: dict_keys_def)
    then have
      "dict_keys (letters_result (foldl (parse_group lower) self
                    (soup_find_all is_category_group content_div)))
         = dict_keys (letters_result self)
           @ filter (\<lambda>k. k \<notin> set (dict_keys (letters_result self)))
               (dict_keys (letters_result (foldl (parse_group lower)
                    (self\<lparr>letters_result := []\<rparr>)
                    (soup_find_all is_category_group content_div))))"
      by (rule parse_groups_keys) simp_all
    with mw Some show ?thesis
      by (simp add: parse_page_def)
  qed
qed

text \<open>A mapping with two letters is fixed by its letters and their values.\<close>

lemma two_letter_dict:
  assumes "dict_keys d = [a, b]" and "a \<noteq> b"
  shows "d = [(a, dict_get d a 0), (b, dict_get d b 0)]"
proof -
  from assms(1) obtain x y where "d = [(a, x), (b, y)]"
    by (auto simp add: dict_keys_def map_eq_Cons_conv)
  with assms(2) show ?thesis
    by (simp add: dict_get_def)
qed

text \<open>
  The merge of two pages, for any two pages that yield these mappings: one page that
  alone yields \<open>a: 2\<close>, then one that alone yields \<open>a: 1, b: 1\<close>, give \<open>a: 3, b: 1\<close>.
\<close>

lemma two_pages_merge:
  assumes fresh: "letters_result self = []"
    and A: "letters_result (parse_page lower self soup_A) = [(a, 2)]"
    and B: "letters_result (parse_page lower self soup_B) = [(a, 1), (b, 1)]"
    and ab: "a \<noteq> b"
  shows "letters_result (parse_page lower (parse_page lower self soup_A) soup_B)
           = [(a, 3), (b, 1)]"
proof -
  let ?s = "parse_page lower self soup_A"
  let ?r = "letters_result (parse_page lower ?s soup_B)"
  have alone: "letters_result (parse_page lower (?s\<lparr>letters_result := []\<rparr>) soup_B)
                 = [(a, 1), (b, 1)]"
  proof -
    have "letters_result (parse_page lower (?s\<lparr>letters_result := []\<rparr>) soup_B)
            = letters_result (parse_page lower self soup_B)"
      by (rule parse_page_letters_cong) (simp_all add: fresh parse_page_fields)
    then show ?thesis by (simp only: B)
  qed
  have "dict_keys ?r = dict_keys [(a, 2)] @ filter (\<lambda>k. k \<notin> set (dict_keys [(a, 2)]))
                                              (dict_keys [(a, 1), (b, 1)])"
    using parse_page_keys [of lower ?s soup_B] by (simp only: alone A)
  with ab have keys: "dict_keys ?r = [a, b]"
    by (simp add: dict_keys_def)
  have "dict_get ?r k 0 = dict_get [(a, 2)] k 0 + dict_get [(a, 1), (b, 1)] k 0" for k
    using parse_page_additive [of lower ?s soup_B k] by (simp only: alone A)
  with ab have "dict_get ?r a 0 = 3" and "dict_get ?r b 0 = 1"
    by (simp_all add: dict_get_def)
  with two_letter_dict [OF keys ab] show ?thesis
    by simp
qed

text \<open>
  C4.  A group that is counted sets the mapping's value for its letter to the value
  before (0 when the letter was absent) plus the number of its list items, and leaves
  the other letters as they were.  Over a whole page, every letter ends with its value
  before plus what the page yields into an empty mapping.  Parsing a page that yields
  \<open>a: 2\<close> and then a page that yields \<open>a: 1, b: 1\<close> into one scraper, which starts
  with an empty mapping, gives \<open>a: 3, b: 1\<close>, whatever the two pages are; \<open>page_A\<close>
  and \<open>page_B\<close> are two such pages, for the first two letters of the alphabet.
\<close>

theorem parse_page_additive_merge:
  "(\<forall>letter_tag ul_tag.
      soup_find (is_tag_named (ascii ''h3'')) grp = Some letter_tag \<and>
      soup_find (is_tag_named (ascii ''ul'')) grp = Some ul_tag \<and>
      (only_russian self \<longrightarrow>
         is_substring (lower (strip (text_of letter_tag))) (self_russian_letters self)) \<longrightarrow>
      map_of (letters_result (parse_group lower self grp)) (strip (text_of letter_tag))
        = Some (dict_get (letters_result self) (strip (text_of letter_tag)) 0
                + int (length (soup_find_all (is_tag_named (ascii ''li'')) ul_tag))) \<and>
      (\<forall>k. k \<noteq> strip (text_of letter_tag) \<longrightarrow>
         map_of (letters_result (parse_group lower self grp)) k
           = map_of (letters_result self) k)) \<and>
   (\<forall>k. dict_get (letters_result (parse_page lower self soup)) k 0
          = dict_get (letters_result self) k 0
            + dict_get (letters_result (parse_page lower (self\<lparr>letters_result := []\<rparr>) soup)) k 0) \<and>
   (\<forall>soup_A soup_B a b.
      letters_result self = [] \<and>
      letters_result (parse_page lower self soup_A) = [(a, 2)] \<and>
      letters_result (parse_page lower self soup_B) = [(a, 1), (b, 1)] \<and> a \<noteq> b \<longrightarrow>
      letters_result (parse_page lower (parse_page lower self soup_A) soup_B)
        = [(a, 3), (b, 1)]) \<and>
   letters_result (parse_page lower_basic (init False) page_A) = [(letter_A, 2)] \<and>
   letters_result (parse_page lower_basic (init False) page_B) = [(letter_A, 1), (letter_B, 1)] \<and>
   letters_result (parse_page lower_basic (parse_page lower_basic (init False) page_A) page_B)
     = [(letter_A, 3), (letter_B, 1)]"
proof (intro conjI allI impI)
  fix letter_tag ul_tag
  assume h: "soup_find (is_tag_named (ascii ''h3'')) grp = Some letter_tag \<and>
             soup_find (is_tag_named (ascii ''ul'')) grp = Some ul_tag \<and>
             (only_russian self \<longrightarrow>
                is_substring (lower (strip (text_of letter_tag))) (self_russian_letters self))"
  then have m: "map_of (letters_result (parse_group lower self grp))
                  = (map_of (letters_result self))
                      (strip (text_of letter_tag) \<mapsto>
                         dict_get (letters_result self) (strip (text_of letter_tag)) 0
                         + int (length (soup_find_all (is_tag_named (ascii ''li'')) ul_tag)))"
    by (intro parse_group_merges) simp_all
  show "map_of (letters_result (parse_group lower self grp)) (strip (text_of letter_tag))
          = Some (dict_get (letters_result self) (strip (text_of letter_tag)) 0
                  + int (length (soup_find_all (is_tag_named (ascii ''li'')) ul_tag)))"
    by (simp add: m)
  fix k
  assume "k \<noteq> strip (text_of letter_tag)"
  then show "map_of (letters_result (parse_group lower self grp)) k
               = map_of (letters_result self) k"
    by (simp add: m)
next
  fix k
  show "dict_get (letters_result (parse_page lower self soup)) k 0
          = dict_get (letters_result self) k 0
            + dict_get (letters_result (parse_page lower (self\<lparr>letters_result := []\<rparr>) soup)) k 0"
    by (rule parse_page_additive)
next
  fix soup_A soup_B a b
  assume "letters_result self = [] \<and>
          letters_result (parse_page lower self soup_A) = [(a, 2)] \<and>
          letters_result (parse_page lower self soup_B) = [(a, 1), (b, 1)] \<and> a \<noteq> b"
  then show "letters_result (parse_page lower (parse_page lower self soup_A) soup_B)
               = [(a, 3), (b, 1)]"
    by (intro two_pages_merge) simp_all
next
  show "letters_result (parse_page lower_basic (init False) page_A) = [(letter_A, 2)]"
    by (simp add: parse_page_A)
  show "letters_result (parse_page lower_basic (init False) page_B)
          = [(letter_A, 1), (letter_B, 1)]"
    by (simp add: parse_page_B)
  show "letters_result (parse_page lower_basic (parse_page lower_basic (init False) page_A) page_B)
          = [(letter_A, 3), (letter_B, 1)]"
    by (simp add: parse_page_A_then_B)
qed

theorem parse_page_additive_merge_witness:
  "letters_result (init False) = [] \<and>
   letters_result (parse_page lower_basic (init False) page_A) = [(letter_A, 2)] \<and>
   letters_result (parse_page lower_basic (init False) page_B) = [(letter_A, 1), (letter_B, 1)] \<and>
   letters_result (parse_page lower_basic (parse_page lower_basic (init False) page_A) page_B)
     = [(letter_A, 3), (letter_B, 1)] \<and>
   dict_get (letters_result
               (parse_page lower_basic (parse_page lower_basic (init False) page_A) page_B))
     letter_A 0 = 2 + 1"
proof -
  let ?after_A = "parse_page lower_basic (init False) page_A"
  have fresh: "letters_result (init False) = []"
    by (simp add: init_def)
  have A: "letters_result ?after_A = [(letter_A, 2)]"
    by (simp add: parse_page_A)
  have B: "letters_result (parse_page lower_basic (init False) page_B)
             = [(letter_A, 1), (letter_B, 1)]"
    by (simp add: parse_page_B)
  note t = parse_page_additive_merge [of _ "init False" lower_basic]
  have "\<forall>soup_A soup_B a b.
          letters_result (init False) = [] \<and>
          letters_result (parse_page lower_basic (init False) soup_A) = [(a, 2)] \<and>
          letters_result (parse_page lower_basic (init False) soup_B) = [(a, 1), (b, 1)] \<and>
          a \<noteq> b \<longrightarrow>
          letters_result (parse_page lower_basic (parse_page lower_basic (init False) soup_A) soup_B)
            = [(a, 3), (b, 1)]"
    by (rule t [THEN conjunct2, THEN conjunct2, THEN conjunct1])
  with fresh A B have AB: "letters_result (parse_page lower_basic ?after_A page_B)
                             = [(letter_A, 3), (letter_B, 1)]"
    by (simp only: letters_distinct simp_thms)
  then have "dict_get (letters_result (parse_page lower_basic ?after_A page_B)) letter_A 0 = 2 + 1"
    by (simp add: dict_get_def)
  with fresh A B AB show ?thesis
    by (intro conjI)
qed

subsection \<open>The link to the next page\<close>

lemma next_link_of_test:
  "soup_find_all is_next_link HTML_NEXT_LINK
     = [Tag (ascii ''a'') [(ascii ''href'', next_page_href)] [NavigableString next_page_label]]"
  by (simp add: HTML_NEXT_LINK_def document_def indent_def search_simps is_next_link_def ascii_def)

lemma no_next_link_of_test: "soup_find_all is_next_link HTML_NO_NEXT = []"
  by (simp add: HTML_NO_NEXT_def document_def search_simps is_next_link_def ascii_def)

lemma joined_next_page:
  "urljoin_absolute_path BASE_URL next_page_href = BASE_URL @ ascii ''?pagefrom=Page2''"
  by (simp add: urljoin_absolute_path_def BASE_URL_def next_page_href_def ascii_def)

lemma two_next_links_all:
  "soup_find_all is_next_link two_next_links
     = [Tag (ascii ''a'') [] [NavigableString next_page_label],
        Tag (ascii ''a'') [(ascii ''href'', next_page_href)] [NavigableString next_page_label]]"
  by (simp add: two_next_links_def document_def search_simps is_next_link_def ascii_def)

lemma next_page_url_by_links:
  "fst (next_page_url urljoin self soup) =
     (case soup_find_all is_next_link soup of
        [] \<Rightarrow> None
      | link # rest \<Rightarrow>
          (case get_attr link (ascii ''href'') of
             None \<Rightarrow> None
           | Some href \<Rightarrow> Some (urljoin (base_url self) href)))"
  by (simp add: next_page_url_def soup_find_first Let_def split: list.split option.split)

text \<open>
  C7, as stated, fails.  \<open>two_next_links\<close> contains an anchor whose text is the label
  and which carries a link target, and the step returns \<open>None\<close>: the search stops at
  the first anchor with the label, which has no \<open>href\<close>.
\<close>

theorem first_link_without_href_counterexample:
  "soup_find_all
     (\<lambda>n. is_tag_named (ascii ''a'') n \<and> text_of n = next_page_label \<and>
          get_attr n (ascii ''href'') = Some next_page_href)
     two_next_links
     = [Tag (ascii ''a'') [(ascii ''href'', next_page_href)] [NavigableString next_page_label]] \<and>
   fst (next_page_url urljoin_absolute_path (init False) two_next_links) = None"
proof
  show "soup_find_all
          (\<lambda>n. is_tag_named (ascii ''a'') n \<and> text_of n = next_page_label \<and>
               get_attr n (ascii ''href'') = Some next_page_href)
          two_next_links
          = [Tag (ascii ''a'') [(ascii ''href'', next_page_href)]
               [NavigableString next_page_label]]"
    by (simp add: two_next_links_def document_def search_simps text_of_def ascii_def)
next
  show "fst (next_page_url urljoin_absolute_path (init False) two_next_links) = None"
    by (simp add: next_page_url_by_links two_next_links_all)
qed

text \<open>
  C7, amended.  The step looks at the first anchor of the document, in document order,
  whose \<open>.string\<close> is the label.  When that anchor carries an \<open>href\<close>, the step returns
  \<open>urljoin\<close> of the base URL and that \<open>href\<close>; when it carries none, or when the document
  has no such anchor, the step returns \<open>None\<close>.
\<close>

theorem next_page_url_first_labelled_link:
  "(soup_find_all is_next_link soup = [] \<longrightarrow>
      fst (next_page_url urljoin self soup) = None) \<and>
   (\<forall>link rest.
      soup_find_all is_next_link soup = link # rest \<longrightarrow>
      (\<forall>href. get_attr link (ascii ''href'') = Some href \<longrightarrow>
         fst (next_page_url urljoin self soup) = Some (urljoin (base_url self) href)) \<and>
      (get_attr link (ascii ''href'') = None \<longrightarrow>
         fst (next_page_url urljoin self soup) = None))"
  by (simp add: next_page_url_by_links)

theorem next_page_url_first_labelled_link_witness:
  "fst (next_page_url urljoin_absolute_path (init False) HTML_NEXT_LINK)
     = Some (BASE_URL @ ascii ''?pagefrom=Page2'') \<and>
   fst (next_page_url urljoin_absolute_path (init False) HTML_NO_NEXT) = None"
proof
  have b: "base_url (init False) = BASE_URL"
    by (simp add: init_def)
  have "get_attr (Tag (ascii ''a'') [(ascii ''href'', next_page_href)]
                    [NavigableString next_page_label]) (ascii ''href'') = Some next_page_href"
    by simp
  with next_link_of_test
  have "fst (next_page_url urljoin_absolute_path (init False) HTML_NEXT_LINK)
          = Some (urljoin_absolute_path (base_url (init False)) next_page_href)"
    using next_page_url_first_labelled_link
            [of HTML_NEXT_LINK urljoin_absolute_path "init False"]
    by blast
  then show "fst (next_page_url urljoin_absolute_path (init False) HTML_NEXT_LINK)
               = Some (BASE_URL @ ascii ''?pagefrom=Page2'')"
    by (simp only: b joined_next_page)
next
  show "fst (next_page_url urljoin_absolute_path (init False) HTML_NO_NEXT) = None"
    using next_page_url_first_labelled_link
            [of HTML_NO_NEXT urljoin_absolute_path "init False"]
          no_next_link_of_test
    by blast
qed

subsection \<open>The filter on letters\<close>

text \<open>For a label of one character the test of the filter is membership in the alphabet.\<close>

lemma is_substring_single: "is_substring [c] s \<longleftrightarrow> c \<in> set s"
  by (induction s) auto

lemma russian_letters_33: "length russian_letters = 33 \<and> distinct russian_letters"
  by (simp add: russian_letters_def)

lemma parse_only_ru_test:
  "letters_result (parse_page lower_basic (init True) HTML_PARSE_ONLY_RU) = [(letter_B, 1)]"
  by (simp add: parse_page_def parse_group_def HTML_PARSE_ONLY_RU_def document_def mw_pages_def
        indent_def entry_def search_simps matcher_defs init_def text_of_def strip_def
        dict_get_def letter_B_def letter_C_def lower_basic_def russian_letters_def)

lemma parse_page_odd_headings:
  "letters_result (parse_page lower_basic (init True) page_odd_headings)
     = [([], 1), (letter_A @ letter_B, 1), (letter_B, 1)]"
  by (simp add: page_odd_headings_def page_simps)
     (simp add: init_def dict_get_def lower_basic_def russian_letters_def
        letter_A_def letter_B_def letter_C_def ascii_def)

text \<open>
  C5 on the code.  With the filter on, the page of the test gives \<open>B: 1\<close> and nothing
  for \<open>C\<close>.  On \<open>page_odd_headings\<close> the group whose heading is a no-break space is
  counted under the empty label, and the group headed by two letters is counted under
  that label, although neither label, lowercased, is one of the 33 letters: the test
  \<open>letter.lower() not in self._russian_letters\<close> is a substring test.
\<close>

theorem russian_filter_counts_non_letters:
  "letters_result (parse_page lower_basic (init True) HTML_PARSE_ONLY_RU) = [(letter_B, 1)] \<and>
   lower_basic (strip [0xA0]) \<notin> (\<lambda>c. [c]) ` set russian_letters \<and>
   lower_basic (strip (letter_A @ letter_B)) \<notin> (\<lambda>c. [c]) ` set russian_letters \<and>
   letters_result (parse_page lower_basic (init True) page_odd_headings)
     = [(strip [0xA0], 1), (letter_A @ letter_B, 1), (letter_B, 1)]"
proof (intro conjI)
  show "letters_result (parse_page lower_basic (init True) HTML_PARSE_ONLY_RU) = [(letter_B, 1)]"
    by (rule parse_only_ru_test)
  show "lower_basic (strip [0xA0]) \<notin> (\<lambda>c. [c]) ` set russian_letters"
    by (auto simp add: lower_basic_def)
  show "lower_basic (strip (letter_A @ letter_B)) \<notin> (\<lambda>c. [c]) ` set russian_letters"
    by (simp add: lower_basic_def) (auto simp add: letter_A_def letter_B_def)
  show "letters_result (parse_page lower_basic (init True) page_odd_headings)
          = [(strip [0xA0], 1), (letter_A @ letter_B, 1), (letter_B, 1)]"
    by (simp add: parse_page_odd_headings)
qed

end
